theory Spec2Isabelle
  imports Main "HOL-Library.Word"
begin

section \<open>AdventureGame.cpp: a shallow embedding\<close>

text \<open>
  The program is one C++ file: the classes \<open>Character\<close>, \<open>Player\<close>, \<open>Enemy\<close> and
  \<open>Game\<close>. Objects become records, member functions become functions that take the
  object (and the streams they write to) and return the updated one, and the two loops
  of \<open>Game\<close> become \<^theory_text>\<open>partial_function (option)\<close>: \<open>None\<close> is a call that never
  returns a state (the loop runs forever, or a null \<open>player\<close> is dereferenced).
  The banner of \<open>displayOpeningScreen\<close>, \<open>main\<close> and the music thread touch neither
  the \<open>Game\<close> object nor the file and are left out.
\<close>

subsection \<open>The type \<open>int\<close>\<close>

text \<open>
  \<open>int\<close> is a 32-bit two's complement integer. The word type gives the range; \<open>sint\<close>
  reads the value, \<open><s\<close> and \<open>\<le>s\<close> are the signed comparisons. Addition and
  subtraction wrap around: C++ leaves signed overflow undefined, and wrap-around is
  what the usual targets compute. No theorem below stands on an overflowing run
  unless it says so.
\<close>

type_synonym cint = "32 word"

subsection \<open>Streams\<close>

text \<open>
  An input stream is the characters not yet consumed and the result of \<open>good()\<close>
  (no state bit set). Once \<open>good\<close> is false every later extraction fails without
  touching its variable, since nothing in the program calls \<open>clear()\<close>.
\<close>

record istream =
  buf :: string
  good :: bool

definition ifstream_open :: "string \<Rightarrow> istream" where
  "ifstream_open content = \<lparr>buf = content, good = True\<rparr>"

text \<open>\<open>isspace\<close> in the C locale: space, \<open>\t\<close>, \<open>\n\<close>, \<open>\v\<close>, \<open>\f\<close>, \<open>\r\<close>.\<close>

definition isspace :: "char \<Rightarrow> bool" where
  "isspace c = (c = CHR '' '' \<or> c = CHR 0x09 \<or> c = CHR 0x0A \<or> c = CHR 0x0B
                \<or> c = CHR 0x0C \<or> c = CHR 0x0D)"

definition notspace :: "char \<Rightarrow> bool" where
  "notspace c = (\<not> isspace c)"

text \<open>
  \<open>is >> str\<close> for a \<open>std::string\<close>. The sentry fails when the stream is not good or
  when only white space is left; then \<open>str\<close> keeps its value. Otherwise the token up
  to the next white space replaces \<open>str\<close>; reading up to the end of the input sets
  \<open>eofbit\<close>.
\<close>

definition extract_string :: "istream \<Rightarrow> string \<Rightarrow> string \<times> istream" where
  "extract_string is str =
     (if \<not> good is then (str, is)
      else let rest = dropWhile isspace (buf is) in
        if rest = [] then (str, \<lparr>buf = [], good = False\<rparr>)
        else let rest' = dropWhile notspace rest
             in (takeWhile notspace rest, \<lparr>buf = rest', good = (rest' \<noteq> [])\<rparr>))"

definition isdigit :: "char \<Rightarrow> bool" where
  "isdigit c = (c \<in> set ''0123456789'')"

text \<open>The value of a decimal digit is its position in \<open>0123456789\<close>.\<close>

definition digit_val :: "char \<Rightarrow> nat" where
  "digit_val c = length (takeWhile (\<lambda>d. d \<noteq> c) ''0123456789'')"

definition decimal :: "string \<Rightarrow> nat" where
  "decimal ds = foldl (\<lambda>acc c. 10 * acc + digit_val c) 0 ds"

definition INT_MAX :: int where
  "INT_MAX = 2147483647"

definition INT_MIN :: int where
  "INT_MIN = - 2147483648"

text \<open>
  \<open>num_get\<close> for a decimal integer: an optional sign, then digits. With no digit the
  conversion fails. The result is the value (if any) and the characters left.
\<close>

definition num_get :: "string \<Rightarrow> int option \<times> string" where
  "num_get cs =
     (let neg = (cs \<noteq> [] \<and> hd cs = CHR ''-'');
          cs1 = (if cs \<noteq> [] \<and> (hd cs = CHR ''-'' \<or> hd cs = CHR ''+'') then tl cs else cs);
          ds = takeWhile isdigit cs1;
          rest = dropWhile isdigit cs1
      in if ds = [] then (None, rest)
         else (Some (if neg then - int (decimal ds) else int (decimal ds)), rest))"

text \<open>
  \<open>is >> val\<close> for an \<open>int\<close> (C++11). When the sentry fails (stream not good, or only
  white space left) \<open>val\<close> is not written. When the conversion fails, 0 is stored;
  when the value does not fit, the nearest of \<open>INT_MAX\<close> and \<open>INT_MIN\<close> is stored;
  both set \<open>failbit\<close>. Reading up to the end of the input sets \<open>eofbit\<close>.
\<close>

definition extract_int :: "istream \<Rightarrow> cint \<Rightarrow> cint \<times> istream" where
  "extract_int is val =
     (if \<not> good is then (val, is)
      else let rest = dropWhile isspace (buf is) in
        if rest = [] then (val, \<lparr>buf = [], good = False\<rparr>)
        else (case num_get rest of
                (None, rest') \<Rightarrow> (0, \<lparr>buf = rest', good = False\<rparr>)
              | (Some v, rest') \<Rightarrow>
                  if INT_MAX < v then (word_of_int INT_MAX, \<lparr>buf = rest', good = False\<rparr>)
                  else if v < INT_MIN then (word_of_int INT_MIN, \<lparr>buf = rest', good = False\<rparr>)
                  else (word_of_int v, \<lparr>buf = rest', good = (rest' \<noteq> [])\<rparr>)))"

text \<open>\<open>os << v\<close> for an \<open>int\<close>: the decimal digits, with \<open>-\<close> before a negative value.\<close>

fun digits :: "nat \<Rightarrow> string" where
  "digits n =
     (if n < 10 then [''0123456789'' ! n]
      else digits (n div 10) @ [''0123456789'' ! (n mod 10)])"

declare digits.simps [simp del]

definition show_int :: "cint \<Rightarrow> string" where
  "show_int v =
     (if sint v < 0 then CHR ''-'' # digits (nat (- sint v)) else digits (nat (sint v)))"

subsection \<open>Character, Player, Enemy\<close>

text \<open>
  \<open>Character\<close> has the two fields of the base class; \<open>Player\<close> extends it, so
  \<open>takeDamage\<close>, defined once on the base, applies to both derived classes. \<open>Enemy\<close>
  adds no field.
\<close>

record Character =
  name :: string
  health :: cint

record Player = Character +
  treasuresCollected :: cint

type_synonym Enemy = Character

text \<open>\<open>Character::takeDamage\<close>, lines 26--29.\<close>

definition takeDamage :: "'a Character_scheme \<Rightarrow> cint \<Rightarrow> 'a Character_scheme" where
  "takeDamage c damage =
     (let h = health c - damage
      in c\<lparr>health := (if h <s 0 then 0 else h)\<rparr>)"

definition getHealth :: "'a Character_scheme \<Rightarrow> cint" where
  "getHealth c = health c"

definition getName :: "'a Character_scheme \<Rightarrow> string" where
  "getName c = name c"

text \<open>The constructors, lines 47 and 71.\<close>

definition new_Player :: "string \<Rightarrow> Player" where
  "new_Player n = \<lparr>name = n, health = 100, treasuresCollected = 0\<rparr>"

definition new_Enemy :: "string \<Rightarrow> Enemy" where
  "new_Enemy n = \<lparr>name = n, health = 50\<rparr>"

text \<open>
  The output streams are lists of chunks, one chunk for each output statement of the
  source, in the order written. \<open>displayStats\<close>, \<open>attack\<close> and \<open>collectTreasure\<close>
  take \<open>cout\<close> and return it extended.
\<close>

text \<open>\<open>Player::displayStats\<close>, lines 50--53, and \<open>Enemy::displayStats\<close>, lines 74--76.\<close>

definition Player_displayStats :: "Player \<Rightarrow> string list \<Rightarrow> string list" where
  "Player_displayStats self out =
     out @ [''Player: '' @ name self @ '', Health: '' @ show_int (health self)
            @ '', Treasures: '' @ show_int (treasuresCollected self) @ ''\<newline>'']"

definition Enemy_displayStats :: "Enemy \<Rightarrow> string list \<Rightarrow> string list" where
  "Enemy_displayStats self out =
     out @ [''Enemy: '' @ name self @ '', Health: '' @ show_int (health self) @ ''\<newline>'']"

text \<open>
  \<open>Player::attack\<close>, lines 56--59, and \<open>Enemy::attack\<close>, lines 79--82: the message,
  then \<open>takeDamage\<close> on the target with the fixed amount.
\<close>

definition Player_attack ::
  "Player \<Rightarrow> 'a Character_scheme \<Rightarrow> string list \<Rightarrow> 'a Character_scheme \<times> string list" where
  "Player_attack self target out =
     (takeDamage target 20, out @ [name self @ '' attacks the enemy!\<newline>''])"

definition Enemy_attack ::
  "Enemy \<Rightarrow> 'a Character_scheme \<Rightarrow> string list \<Rightarrow> 'a Character_scheme \<times> string list" where
  "Enemy_attack self target out =
     (takeDamage target 15, out @ [name self @ '' attacks the player!\<newline>''])"

text \<open>\<open>Player::collectTreasure\<close>, lines 62--65.\<close>

definition collectTreasure :: "Player \<Rightarrow> string list \<Rightarrow> Player \<times> string list" where
  "collectTreasure self out =
     (let self' = self\<lparr>treasuresCollected := treasuresCollected self + 1\<rparr>
      in (self', out @ [''Collected a treasure! Total: ''
                        @ show_int (treasuresCollected self') @ ''\<newline>'']))"

subsection \<open>Game\<close>

text \<open>
  The state of a \<open>Game\<close> is its one field \<open>player\<close> (\<open>None\<close> is \<open>nullptr\<close>) together
  with what the member functions reach outside the object: \<open>cin\<close>, \<open>cout\<close>, \<open>cerr\<close>
  and the file \<open>game_state.txt\<close>. The file is its content (\<open>None\<close>: there is no such
  file) and whether it can be opened for reading and for writing.
\<close>

record Game =
  player :: "Player option"
  cin :: istream
  cout :: "string list"
  cerr :: "string list"
  game_state_txt :: "string option"
  readable :: bool
  writable :: bool

text \<open>\<open>ifstream file("game_state.txt")\<close>: \<open>None\<close> when \<open>!file\<close>.\<close>

definition open_ifstream :: "Game \<Rightarrow> istream option" where
  "open_ifstream g =
     (case game_state_txt g of
        None \<Rightarrow> None
      | Some content \<Rightarrow> if readable g then Some (ifstream_open content) else None)"

text \<open>
  \<open>e.what()\<close> of the \<open>ios_base::failure\<close> thrown with message \<open>msg\<close>. Since C++11
  the exception is a \<open>system_error\<close> with the code \<open>io_errc::stream\<close>, whose
  \<open>what()\<close> in libstdc++ is the message, a colon and the text of the error code.
  The properties below leave \<open>what\<close> folded: they do not depend on this text.
\<close>

definition what :: "string \<Rightarrow> string" where
  "what msg = msg @ '': iostream error''"

text \<open>What the two \<open>catch\<close> blocks write to \<open>cerr\<close>, lines 160 and 179.\<close>

definition load_error_message :: string where
  "load_error_message =
     ''Error loading game: '' @ what ''Failed to open file for loading.'' @ ''\<newline>''"

definition save_error_message :: string where
  "save_error_message =
     ''Error saving game: '' @ what ''Failed to open file for saving.'' @ ''\<newline>''"

text \<open>The outcome messages, lines 214 and 217.\<close>

definition defeat_message :: string where
  "defeat_message = ''You have been defeated. Game over.\<newline>''"

definition victory_message :: string where
  "victory_message = ''You defeated the enemy! Victory!\<newline>''"

text \<open>
  \<open>Game::saveGame\<close>, lines 165--181. The file is opened before \<open>player\<close> is
  dereferenced, so a failed open is reported whatever \<open>player\<close> is; with the file open,
  a null \<open>player\<close> gives no result.
\<close>

definition saveGame :: "Game \<Rightarrow> Game option" where
  "saveGame g =
     (if \<not> writable g then
        Some (g\<lparr>cerr := cerr g @ [save_error_message]\<rparr>)
      else case player g of
        None \<Rightarrow> None
      | Some p \<Rightarrow>
          Some (g\<lparr>game_state_txt :=
                     Some (getName p @ ''\<newline>'' @ show_int (getHealth p) @ ''\<newline>''),
                  cout := cout g @ [''Game state saved successfully.\<newline>'']\<rparr>))"

text \<open>The text of line 191.\<close>

definition action_prompt :: string where
  "action_prompt = ''\<newline>Choose an action:\<newline>1. Attack\<newline>2. Collect Treasure''
                   @ ''\<newline>3. Save and Exit\<newline>''"

text \<open>
  Lines 188--193 of \<open>Game::play\<close>: both stats lines and the prompt are written and
  \<open>action\<close>, initialised to 0, is read. \<open>p\<close> is the object \<open>player\<close> points to.
\<close>

definition play_choose :: "Enemy \<Rightarrow> Player \<Rightarrow> Game \<Rightarrow> cint \<times> Game" where
  "play_choose enemy p g =
     (let g1 = g\<lparr>cout := Enemy_displayStats enemy (Player_displayStats p (cout g))\<rparr>;
          g2 = g1\<lparr>cout := cout g1 @ [action_prompt]\<rparr>;
          (action, cin') = extract_int (cin g2) 0
      in (action, g2\<lparr>cin := cin'\<rparr>))"

text \<open>
  One iteration of the loop of \<open>Game::play\<close>, lines 188--210, with the local \<open>enemy\<close>
  passed in and out. \<open>Return\<close> is the \<open>return\<close> of line 206, \<open>Next\<close> the end of
  the loop body.
\<close>

datatype flow = Next | Return

definition play_body :: "Enemy \<Rightarrow> Game \<Rightarrow> (flow \<times> Enemy \<times> Game) option" where
  "play_body enemy g =
     (case player g of
        None \<Rightarrow> None
      | Some p \<Rightarrow>
          let (action, g3) = play_choose enemy p g
          in if action = 1 then
               let (enemy', out') = Player_attack p enemy (cout g3);
                   (p', out'') = (if 0 <s getHealth enemy' then Enemy_attack enemy' p out'
                                  else (p, out'))
               in Some (Next, enemy', g3\<lparr>player := Some p', cout := out''\<rparr>)
             else if action = 2 then
               let (p', out') = collectTreasure p (cout g3)
               in Some (Next, enemy, g3\<lparr>player := Some p', cout := out'\<rparr>)
             else if action = 3 then
               (case saveGame g3 of
                  None \<Rightarrow> None
                | Some g4 \<Rightarrow> Some (Return, enemy, g4\<lparr>player := None\<rparr>))
             else
               Some (Next, enemy,
                     g3\<lparr>cerr := cerr g3 @ [''Invalid action. Try again.\<newline>'']\<rparr>))"

text \<open>The \<open>while\<close> loop of \<open>Game::play\<close>, line 187.\<close>

partial_function (option) play_loop :: "Enemy \<Rightarrow> Game \<Rightarrow> (flow \<times> Enemy \<times> Game) option" where
  "play_loop enemy g =
     (case player g of
        None \<Rightarrow> None
      | Some p \<Rightarrow>
          if 0 <s getHealth p \<and> 0 <s getHealth enemy then
            (case play_body enemy g of
               None \<Rightarrow> None
             | Some (fl, enemy', g') \<Rightarrow>
                 if fl = Return then Some (Return, enemy', g') else play_loop enemy' g')
          else Some (Next, enemy, g))"

text \<open>
  What follows the loop, lines 213--221: the outcome message, defeat tested first,
  and the player deleted.
\<close>

definition play_end :: "Enemy \<Rightarrow> Game \<Rightarrow> Game option" where
  "play_end enemy g =
     (case player g of
        None \<Rightarrow> None
      | Some p \<Rightarrow>
          let g1 = (if getHealth p \<le>s 0 then g\<lparr>cout := cout g @ [defeat_message]\<rparr>
                    else if getHealth enemy \<le>s 0 then g\<lparr>cout := cout g @ [victory_message]\<rparr>
                    else g)
          in Some (g1\<lparr>player := None\<rparr>))"

text \<open>\<open>Game::play\<close>, lines 184--222.\<close>

definition play :: "Game \<Rightarrow> Game option" where
  "play g =
     (case play_loop (new_Enemy ''Goblin'') g of
        None \<Rightarrow> None
      | Some (fl, enemy, g') \<Rightarrow> if fl = Return then Some g' else play_end enemy g')"

text \<open>\<open>Game::startGame\<close>, lines 129--138.\<close>

definition startGame :: "Game \<Rightarrow> Game option" where
  "startGame g =
     (let g1 = g\<lparr>cout := cout g @ [''Enter your name: '']\<rparr>;
          (playerName, cin') = extract_string (cin g1) [];
          g2 = g1\<lparr>cin := cin', player := Some (new_Player playerName)\<rparr>;
          g3 = g2\<lparr>cout := cout g2 @ [''Starting new game...\<newline>'']\<rparr>
      in play g3)"

text \<open>
  Lines 152--153 of \<open>Game::loadGame\<close>: the player built from the two values read.
\<close>

definition loadGame_adjust :: "string \<Rightarrow> cint \<Rightarrow> Player" where
  "loadGame_adjust playerName playerHealth =
     takeDamage (new_Player playerName) (100 - playerHealth)"

text \<open>
  Lines 148--153: the local \<open>playerHealth\<close> is declared without an initial value.
  \<open>indet\<close> is the indeterminate value it holds if the extraction does not write it.
\<close>

definition loadGame_read :: "cint \<Rightarrow> istream \<Rightarrow> Player" where
  "loadGame_read indet file =
     (let (playerName, file1) = extract_string file [];
          (playerHealth, file2) = extract_int file1 indet
      in loadGame_adjust playerName playerHealth)"

text \<open>\<open>Game::loadGame\<close>, lines 141--162.\<close>

definition loadGame :: "cint \<Rightarrow> Game \<Rightarrow> Game option" where
  "loadGame indet g =
     (case open_ifstream g of
        None \<Rightarrow>
          Some (g\<lparr>cerr := cerr g @ [load_error_message]\<rparr>)
      | Some file \<Rightarrow>
          let g1 = g\<lparr>player := Some (loadGame_read indet file)\<rparr>;
              g2 = g1\<lparr>cout := cout g1 @ [''Game state loaded successfully.\<newline>'']\<rparr>
          in play g2)"

text \<open>
  Lines 109--111 of \<open>Game::displayMenu\<close>: the menu and the prompt are written and
  \<open>choice\<close> is read. \<open>choice\<close> is declared outside the loop, so an extraction that
  does not write it leaves the previous choice in place.
\<close>

definition menu_choose :: "cint \<Rightarrow> Game \<Rightarrow> cint \<times> Game" where
  "menu_choose choice g =
     (let g1 = g\<lparr>cout := cout g
                         @ [''1. Start Game\<newline>2. Load Game\<newline>3. Exit\<newline>'']\<rparr>;
          g2 = g1\<lparr>cout := cout g1 @ [''Choose an option: '']\<rparr>;
          (choice', cin') = extract_int (cin g2) choice
      in (choice', g2\<lparr>cin := cin'\<rparr>))"

text \<open>
  \<open>Game::displayMenu\<close>, lines 105--126: the loop, entered with \<open>choice = 0\<close>.
  \<open>indet\<close> is handed to every \<open>loadGame\<close>.
\<close>

partial_function (option) displayMenu_loop :: "cint \<Rightarrow> cint \<Rightarrow> Game \<Rightarrow> Game option" where
  "displayMenu_loop indet choice g =
     (if choice \<noteq> 3 then
        let (choice', g3) = menu_choose choice g
        in if choice' = 1 then
             (case startGame g3 of
                None \<Rightarrow> None
              | Some g4 \<Rightarrow> displayMenu_loop indet choice' g4)
           else if choice' = 2 then
             (case loadGame indet g3 of
                None \<Rightarrow> None
              | Some g4 \<Rightarrow> displayMenu_loop indet choice' g4)
           else if choice' = 3 then
             displayMenu_loop indet choice'
               (g3\<lparr>cout := cout g3 @ [''Thank you for playing Mystic Quest!\<newline>'']\<rparr>)
           else
             displayMenu_loop indet choice'
               (g3\<lparr>cerr := cerr g3 @ [''Invalid choice. Please try again.\<newline>'']\<rparr>)
      else Some g)"

definition displayMenu :: "cint \<Rightarrow> Game \<Rightarrow> Game option" where
  "displayMenu indet g = displayMenu_loop indet 0 g"

subsection \<open>Vocabulary of the properties\<close>

text \<open>A list of output chunks none of which is an outcome message of lines 214 and 217.\<close>

definition no_outcome :: "string list \<Rightarrow> bool" where
  "no_outcome new = (victory_message \<notin> set new \<and> defeat_message \<notin> set new)"

text \<open>
  The operations that change a combatant, each carried out by the member function of
  the source: the two \<open>attack\<close>s of a bout, \<open>takeDamage\<close> with any amount on either
  combatant, \<open>collectTreasure\<close>, and the replacement of the player by the one that
  \<open>loadGame\<close> builds from a name and a health read from the file.
\<close>

datatype operation =
    PlayerAttacks
  | EnemyAttacks
  | PlayerTakesDamage cint
  | EnemyTakesDamage cint
  | CollectsTreasure
  | Loads string cint

fun apply_operation :: "Player \<times> Enemy \<Rightarrow> operation \<Rightarrow> Player \<times> Enemy" where
  "apply_operation (p, e) PlayerAttacks = (p, fst (Player_attack p e []))"
| "apply_operation (p, e) EnemyAttacks = (fst (Enemy_attack e p []), e)"
| "apply_operation (p, e) (PlayerTakesDamage d) = (takeDamage p d, e)"
| "apply_operation (p, e) (EnemyTakesDamage d) = (p, takeDamage e d)"
| "apply_operation (p, e) CollectsTreasure = (fst (collectTreasure p []), e)"
| "apply_operation (p, e) (Loads n h) = (loadGame_adjust n h, e)"

section \<open>Properties\<close>

subsection \<open>Arithmetic of \<open>int\<close>\<close>

lemma sint_bounds:
  fixes a :: cint
  shows "- 2147483648 \<le> sint a" and "sint a \<le> 2147483647"
  using sint_ge [of a] sint_lt [of a] by simp_all

lemma sint_diff_in_range:
  fixes a b :: cint
  assumes "- 2147483648 \<le> sint a - sint b" and "sint a - sint b \<le> 2147483647"
  shows "sint (a - b) = sint a - sint b"
proof -
  have "signed_take_bit 31 (sint a - sint b) = sint a - sint b"
    using assms by (intro signed_take_bit_int_eq_self) simp_all
  then show ?thesis by (simp add: sint_word_diff)
qed

lemma takeDamage_name [simp]: "name (takeDamage c d) = name c"
  by (simp add: takeDamage_def Let_def)

lemma takeDamage_more [simp]: "Character.more (takeDamage c d) = Character.more c"
  by (simp add: takeDamage_def Let_def)

lemma takeDamage_nonneg: "0 \<le>s health (takeDamage c d)"
  by (simp add: takeDamage_def Let_def word_sless_alt word_sle_eq)

lemma takeDamage_sint:
  assumes "0 \<le> sint (health c)" and "0 \<le> sint d"
  shows "sint (health (takeDamage c d)) = max 0 (sint (health c) - sint d)"
proof -
  have "sint (health c - d) = sint (health c) - sint d"
    using assms sint_bounds [of "health c"] sint_bounds [of d]
    by (intro sint_diff_in_range) linarith+
  then show ?thesis
    by (simp add: takeDamage_def Let_def word_sless_alt max_def)
qed

subsection \<open>Streams and the loop body\<close>

lemmas stream_defs = extract_int_def extract_string_def isspace_def notspace_def num_get_def
  isdigit_def decimal_def digit_val_def INT_MAX_def INT_MIN_def ifstream_open_def

lemma no_outcome_append: "no_outcome (xs @ ys) = (no_outcome xs \<and> no_outcome ys)"
  by (auto simp add: no_outcome_def)

lemma no_outcome_Nil: "no_outcome []"
  by (simp add: no_outcome_def)

lemma neq_by_rev: "rev xs \<noteq> rev ys \<Longrightarrow> xs \<noteq> ys"
  by auto

lemma no_outcome_attacks_enemy: "no_outcome [n @ '' attacks the enemy!\<newline>'']"
proof -
  have "n @ '' attacks the enemy!\<newline>'' \<noteq> victory_message"
    by (rule neq_by_rev) (simp add: victory_message_def)
  moreover have "n @ '' attacks the enemy!\<newline>'' \<noteq> defeat_message"
    by (rule neq_by_rev) (simp add: defeat_message_def)
  ultimately show ?thesis
    unfolding no_outcome_def by (metis empty_iff empty_set set_ConsD)
qed

lemma no_outcome_attacks_player: "no_outcome [n @ '' attacks the player!\<newline>'']"
proof -
  have "n @ '' attacks the player!\<newline>'' \<noteq> victory_message"
    by (rule neq_by_rev) (simp add: victory_message_def)
  moreover have "n @ '' attacks the player!\<newline>'' \<noteq> defeat_message"
    by (rule neq_by_rev) (simp add: defeat_message_def)
  ultimately show ?thesis
    unfolding no_outcome_def by (metis empty_iff empty_set set_ConsD)
qed

lemma no_outcome_stats: "no_outcome (Enemy_displayStats enemy (Player_displayStats p out)) = no_outcome out"
  by (simp add: no_outcome_def Enemy_displayStats_def Player_displayStats_def
      victory_message_def defeat_message_def)

lemma no_outcome_misc:
  "no_outcome [action_prompt]"
  "no_outcome [''Collected a treasure! Total: '' @ s]"
  "no_outcome [''Game state saved successfully.\<newline>'']"
  by (simp_all add: no_outcome_def action_prompt_def victory_message_def defeat_message_def)

lemma play_choose_eq:
  "play_choose enemy p g =
     (fst (extract_int (cin g) 0),
      g\<lparr>cout := Enemy_displayStats enemy (Player_displayStats p (cout g)) @ [action_prompt],
        cin := snd (extract_int (cin g) 0)\<rparr>)"
  by (simp add: play_choose_def Let_def split: prod.splits)

lemma play_choose_cout:
  assumes "play_choose enemy p g = (a, g3)"
  shows "\<exists>new. cout g3 = cout g @ new \<and> no_outcome new"
proof -
  from assms have "cout g3 = Enemy_displayStats enemy (Player_displayStats p (cout g)) @ [action_prompt]"
    by (auto simp add: play_choose_eq)
  then have "cout g3 = cout g @ (Enemy_displayStats enemy (Player_displayStats p []) @ [action_prompt])"
    by (simp add: Enemy_displayStats_def Player_displayStats_def)
  moreover have "no_outcome (Enemy_displayStats enemy (Player_displayStats p []) @ [action_prompt])"
    by (simp add: no_outcome_append no_outcome_stats no_outcome_Nil no_outcome_misc)
  ultimately show ?thesis by blast
qed

lemma play_choose_player:
  assumes "play_choose enemy p g = (a, g3)"
  shows "player g3 = player g"
  using assms by (auto simp add: play_choose_eq)

lemma saveGame_player:
  assumes "player g = Some p"
  shows "saveGame g =
     Some (if writable g
           then g\<lparr>game_state_txt :=
                     Some (name p @ ''\<newline>'' @ show_int (health p) @ ''\<newline>''),
                   cout := cout g @ [''Game state saved successfully.\<newline>'']\<rparr>
           else g\<lparr>cerr := cerr g @ [save_error_message]\<rparr>)"
  using assms by (simp add: saveGame_def getName_def getHealth_def)

lemma saveGame_cout:
  assumes "saveGame g = Some g'"
  shows "\<exists>new. cout g' = cout g @ new \<and> no_outcome new"
proof (cases "writable g")
  case True
  with assms have "cout g' = cout g @ [''Game state saved successfully.\<newline>'']"
    by (auto simp add: saveGame_def split: option.splits)
  then show ?thesis using no_outcome_misc(3) by blast
next
  case False
  with assms have "cout g' = cout g @ []"
    by (auto simp add: saveGame_def)
  then show ?thesis using no_outcome_Nil by blast
qed

text \<open>The four branches of the loop body.\<close>

lemma play_body_attack:
  assumes "player g = Some p" and "play_choose enemy p g = (1, g3)"
  shows "play_body enemy g =
           Some (Next, takeDamage enemy 20,
                 g3\<lparr>player := Some (if 0 <s health (takeDamage enemy 20)
                                      then takeDamage p 15 else p),
                    cout := cout g3 @ [name p @ '' attacks the enemy!\<newline>'']
                            @ (if 0 <s health (takeDamage enemy 20)
                               then [name enemy @ '' attacks the player!\<newline>'']
                               else [])\<rparr>)"
  using assms
  by (simp add: play_body_def Player_attack_def Enemy_attack_def getHealth_def)

lemma play_body_collect:
  assumes "player g = Some p" and "play_choose enemy p g = (2, g3)"
  shows "play_body enemy g =
           Some (Next, enemy,
                 g3\<lparr>player := Some (p\<lparr>treasuresCollected := treasuresCollected p + 1\<rparr>),
                    cout := cout g3 @ [''Collected a treasure! Total: ''
                       @ show_int (treasuresCollected p + 1) @ ''\<newline>'']\<rparr>)"
  using assms by (simp add: play_body_def collectTreasure_def Let_def)

lemma play_body_save:
  assumes "player g = Some p" and "play_choose enemy p g = (3, g3)"
  shows "play_body enemy g =
           (case saveGame g3 of None \<Rightarrow> None
            | Some g4 \<Rightarrow> Some (Return, enemy, g4\<lparr>player := None\<rparr>))"
  using assms by (simp add: play_body_def)

lemma play_body_invalid:
  assumes "player g = Some p" and "play_choose enemy p g = (a, g3)"
    and "a \<noteq> 1" and "a \<noteq> 2" and "a \<noteq> 3"
  shows "play_body enemy g =
           Some (Next, enemy, g3\<lparr>cerr := cerr g3 @ [''Invalid action. Try again.\<newline>'']\<rparr>)"
  using assms by (simp add: play_body_def)

lemma play_body_cout:
  assumes "play_body enemy g = Some (fl, enemy', g')"
  shows "\<exists>new. cout g' = cout g @ new \<and> no_outcome new"
proof -
  from assms obtain p where p: "player g = Some p"
    by (auto simp add: play_body_def split: option.splits)
  obtain a g3 where c: "play_choose enemy p g = (a, g3)"
    by (cases "play_choose enemy p g")
  from play_choose_cout [OF c] obtain new3
    where g3: "cout g3 = cout g @ new3" and q3: "no_outcome new3" by blast
  have "\<exists>new. cout g' = cout g3 @ new \<and> no_outcome new"
  proof -
    consider "a = 1" | "a = 2" | "a = 3" | "a \<noteq> 1 \<and> a \<noteq> 2 \<and> a \<noteq> 3" by blast
    then show ?thesis
    proof cases
      case 1
      with assms play_body_attack [OF p, of enemy g3] c
      have "cout g' = cout g3 @ ([name p @ '' attacks the enemy!\<newline>'']
                            @ (if 0 <s health (takeDamage enemy 20)
                               then [name enemy @ '' attacks the player!\<newline>'']
                               else []))"
        by auto
      moreover have "no_outcome ([name p @ '' attacks the enemy!\<newline>'']
                            @ (if 0 <s health (takeDamage enemy 20)
                               then [name enemy @ '' attacks the player!\<newline>'']
                               else []))"
        using no_outcome_attacks_enemy [of "name p"] no_outcome_attacks_player [of "name enemy"]
        by (simp add: no_outcome_append no_outcome_Nil del: append.simps)
      ultimately show ?thesis by blast
    next
      case 2
      with assms play_body_collect [OF p, of enemy g3] c
      have "cout g' = cout g3 @ [''Collected a treasure! Total: ''
                       @ (show_int (treasuresCollected p + 1) @ ''\<newline>'')]"
        by auto
      then show ?thesis using no_outcome_misc(2) by blast
    next
      case 3
      with assms play_body_save [OF p, of enemy g3] c
      obtain g4 where s: "saveGame g3 = Some g4" and "g' = g4\<lparr>player := None\<rparr>"
        by (auto split: option.splits)
      with saveGame_cout [OF s] show ?thesis by auto
    next
      case 4
      with assms play_body_invalid [OF p c] have "cout g' = cout g3 @ []"
        by auto
      then show ?thesis using no_outcome_Nil by blast
    qed
  qed
  then obtain new where "cout g' = cout g3 @ new" and "no_outcome new" by blast
  with g3 q3 have "cout g' = cout g @ (new3 @ new)" and "no_outcome (new3 @ new)"
    by (simp_all add: no_outcome_append)
  then show ?thesis by blast
qed

lemma play_body_Return:
  assumes "play_body enemy g = Some (Return, enemy', g')"
  shows "player g' = None"
  using assms
  by (auto simp add: play_body_def Let_def split: option.splits prod.splits if_splits)

lemma play_loop_Return:
  assumes "play_loop enemy g = Some r" and "fst r = Return"
  shows "player (snd (snd r)) = None
         \<and> (\<exists>new. cout (snd (snd r)) = cout g @ new \<and> no_outcome new)"
  using assms
proof (induction rule: play_loop.raw_induct [rotated 1, consumes 1])
  case (1 play_loop enemy g r)
  note eq = "1.hyps"
  from eq obtain p where p: "player g = Some p"
    by (auto split: option.splits)
  from eq "1.prems" p 
  obtain fl e1 g1 where b: "play_body enemy g = Some (fl, e1, g1)"
    by (auto split: option.splits if_splits)
  from play_body_cout [OF b] obtain new1 where n1: "cout g1 = cout g @ new1" "no_outcome new1"
    by blast
  show ?case
  proof (cases "fl = Return")
    case True
    with eq "1.prems" p b have "r = (Return, e1, g1)"
      by (auto split: if_splits)
    with True b n1 show ?thesis
      by (auto simp add: play_body_Return)
  next
    case False
    with eq "1.prems" p b have "play_loop e1 g1 = Some r"
      by (auto split: if_splits)
    from "1.IH" [OF this "1.prems"] obtain new2
      where "player (snd (snd r)) = None" and "cout (snd (snd r)) = cout g1 @ new2" and "no_outcome new2"
      by blast
    with n1 have "cout (snd (snd r)) = cout g @ (new1 @ new2)" and "no_outcome (new1 @ new2)"
      by (simp_all add: no_outcome_append)
    with \<open>player (snd (snd r)) = None\<close> show ?thesis by blast
  qed
qed


subsection \<open>takeDamage\<close>

text \<open>
  C1. For a character whose health \<open>h\<close> is not negative and a damage \<open>d\<close> that is
  not negative, \<open>takeDamage\<close> leaves the health at \<open>max 0 (h - d)\<close> and touches no
  other field. The subtraction cannot overflow on these inputs. With \<open>d > h\<close> the
  health is 0, with \<open>d = 0\<close> it is unchanged.
\<close>

theorem takeDamage_max:
  assumes "0 \<le>s health c" and "0 \<le>s d"
  shows "sint (health (takeDamage c d)) = max 0 (sint (health c) - sint d)
         \<and> name (takeDamage c d) = name c
         \<and> Character.more (takeDamage c d) = Character.more c"
proof -
  from assms have "0 \<le> sint (health c)" and "0 \<le> sint d"
    by (simp_all add: word_sle_eq)
  then show ?thesis
    by (simp add: takeDamage_sint)
qed

text \<open>
  The theorem at health 30: damage 50 gives 0, damage 0 gives 30, damage 20 gives 10.
\<close>

theorem takeDamage_max_witness:
  "sint (health (takeDamage \<lparr>name = ''Hero'', health = 30\<rparr> 50)) = 0
   \<and> sint (health (takeDamage \<lparr>name = ''Hero'', health = 30\<rparr> 0)) = 30
   \<and> sint (health (takeDamage \<lparr>name = ''Hero'', health = 30\<rparr> 20)) = 10"
proof -
  have h: "(0::cint) \<le>s health \<lparr>name = ''Hero'', health = 30\<rparr>"
    by (simp add: word_sle_eq)
  have "(0::cint) \<le>s 50" and "(0::cint) \<le>s 0" and "(0::cint) \<le>s 20"
    by (simp_all add: word_sle_eq)
  then show ?thesis
    using takeDamage_max [OF h, of 50] takeDamage_max [OF h, of 0]
      takeDamage_max [OF h, of 20]
    by simp
qed

subsection \<open>Saving and loading\<close>

lemma show_int_80: "show_int 80 = ''80''"
  by (simp add: show_int_def digits.simps)

lemma read_Hero_80:
  "loadGame_read indet (ifstream_open ''Hero\<newline>80\<newline>'') =
     \<lparr>name = ''Hero'', health = 80, treasuresCollected = 0\<rparr>"
  by (simp add: loadGame_read_def loadGame_adjust_def new_Player_def takeDamage_def
      stream_defs Let_def word_sless_alt)

text \<open>
  C2. Saving a player named \<open>Hero\<close> with health 80 (whatever the treasure count and
  the rest of the state, the file being writable) writes the two lines \<open>Hero\<close> and
  \<open>80\<close>. Opening that file and reading it as \<open>loadGame\<close> does gives a player named
  \<open>Hero\<close> with health exactly 80 and no treasure: the fresh player of health 100
  after \<open>takeDamage 20\<close>. \<open>loadGame\<close> then enters \<open>play\<close> with this player.
\<close>

theorem save_load_roundtrip:
  "\<exists>g' file.
     saveGame (g\<lparr>player := Some \<lparr>name = ''Hero'', health = 80, treasuresCollected = t\<rparr>,
                  writable := True\<rparr>) = Some g'
     \<and> game_state_txt g' = Some ''Hero\<newline>80\<newline>''
     \<and> open_ifstream (g'\<lparr>readable := True\<rparr>) = Some file
     \<and> loadGame_read indet file = \<lparr>name = ''Hero'', health = 80, treasuresCollected = 0\<rparr>
     \<and> loadGame_read indet file = takeDamage (new_Player ''Hero'') 20
     \<and> loadGame indet (g'\<lparr>readable := True\<rparr>) =
         play (g'\<lparr>readable := True,
                   player := Some \<lparr>name = ''Hero'', health = 80, treasuresCollected = 0\<rparr>,
                   cout := cout g' @ [''Game state loaded successfully.\<newline>'']\<rparr>)"
proof -
  define pl :: Player where "pl = \<lparr>name = ''Hero'', health = 80, treasuresCollected = t\<rparr>"
  define g0 where "g0 = g\<lparr>player := Some pl, writable := True\<rparr>"
  define g' where "g' = g0\<lparr>game_state_txt := Some ''Hero\<newline>80\<newline>'',
                            cout := cout g0 @ [''Game state saved successfully.\<newline>'']\<rparr>"
  define ifs where "ifs = ifstream_open ''Hero\<newline>80\<newline>''"
  have "player g0 = Some pl" and "writable g0"
    by (simp_all add: g0_def)
  then have 1: "saveGame g0 = Some g'"
    by (simp add: saveGame_player g'_def pl_def show_int_80)
  have 2: "game_state_txt g' = Some ''Hero\<newline>80\<newline>''"
    by (simp add: g'_def)
  have 3: "open_ifstream (g'\<lparr>readable := True\<rparr>) = Some ifs"
    by (simp add: open_ifstream_def g'_def ifs_def)
  have 4: "loadGame_read indet ifs = \<lparr>name = ''Hero'', health = 80, treasuresCollected = 0\<rparr>"
    unfolding ifs_def by (rule read_Hero_80)
  have 5: "loadGame_read indet ifs = takeDamage (new_Player ''Hero'') 20"
    by (simp add: 4 takeDamage_def new_Player_def Let_def word_sless_alt)
  have 6: "loadGame indet (g'\<lparr>readable := True\<rparr>) =
         play (g'\<lparr>readable := True,
                   player := Some \<lparr>name = ''Hero'', health = 80, treasuresCollected = 0\<rparr>,
                   cout := cout g' @ [''Game state loaded successfully.\<newline>'']\<rparr>)"
    by (simp add: loadGame_def 3 4 Let_def)
  from 1 2 3 4 5 6 show ?thesis
    unfolding g0_def pl_def by blast
qed

lemma loadGame_adjust_sint: "sint (health (loadGame_adjust n h)) = max 0 (sint h)"
  by (simp add: loadGame_adjust_def new_Player_def takeDamage_def Let_def word_sless_alt max_def)

text \<open>
  C6, as stated, fails: a file that records health 150 is loaded as a player of
  health 150. The damage is \<open>100 - 150 = -50\<close>, and \<open>takeDamage\<close> subtracts it
  without looking at its sign.
\<close>

theorem loadGame_health_counterexample:
  "\<not> sint (health (loadGame_read 0 (ifstream_open ''Hero\<newline>150\<newline>''))) \<le> 100"
  by (simp add: loadGame_read_def loadGame_adjust_def new_Player_def takeDamage_def
      stream_defs Let_def word_sless_alt)

text \<open>
  C6, amended. For every health value \<open>h\<close> that \<open>loadGame\<close> reads, the loaded player
  has health \<open>max 0 h\<close>: a recorded value is restored as it is, also above 100, and a
  negative one gives 0. (For \<open>h\<close> below \<open>-2147483547\<close> the subtraction \<open>100 - h\<close>
  overflows; the wrapped result is clamped to 0 all the same.) The second part says
  the same of the player read from any file content.
\<close>

theorem loadGame_health_restored:
  "sint (health (loadGame_adjust n h)) = max 0 (sint h)
   \<and> sint (health (loadGame_read indet file)) =
       max 0 (sint (fst (extract_int (snd (extract_string file [])) indet)))"
proof
  show "sint (health (loadGame_adjust n h)) = max 0 (sint h)"
    by (rule loadGame_adjust_sint)
next
  obtain playerName file1 where 1: "extract_string file [] = (playerName, file1)"
    by (cases "extract_string file []")
  obtain playerHealth file2 where 2: "extract_int file1 indet = (playerHealth, file2)"
    by (cases "extract_int file1 indet")
  from 1 2 have "loadGame_read indet file = loadGame_adjust playerName playerHealth"
    by (simp add: loadGame_read_def)
  with 1 2 show "sint (health (loadGame_read indet file)) =
       max 0 (sint (fst (extract_int (snd (extract_string file [])) indet)))"
    by (simp add: loadGame_adjust_sint)
qed

subsection \<open>Health is never negative\<close>

lemma apply_operation_nonneg:
  assumes "0 \<le>s health (fst s) \<and> 0 \<le>s health (snd s)"
  shows "0 \<le>s health (fst (apply_operation s op)) \<and> 0 \<le>s health (snd (apply_operation s op))"
  using assms
  by (cases s; cases op)
    (simp_all add: Player_attack_def Enemy_attack_def collectTreasure_def Let_def
      loadGame_adjust_def takeDamage_nonneg)

lemma foldl_apply_operation_nonneg:
  assumes "0 \<le>s health (fst s) \<and> 0 \<le>s health (snd s)"
  shows "0 \<le>s health (fst (foldl apply_operation s ops))
         \<and> 0 \<le>s health (snd (foldl apply_operation s ops))"
  using assms
proof (induction ops arbitrary: s)
  case Nil
  then show ?case by simp
next
  case (Cons op ops)
  from apply_operation_nonneg [OF Cons.prems]
  show ?case by (simp add: Cons.IH)
qed

text \<open>
  C4. Start from a constructed \<open>Player\<close> (health 100) and a constructed \<open>Enemy\<close>
  (health 50) and apply any sequence of operations: attacks in either direction,
  \<open>takeDamage\<close> with any amount on either combatant, \<open>collectTreasure\<close>, and the
  replacement of the player by a loaded one. The health of both combatants is not
  negative afterwards. \<open>takeDamage\<close> clamps after the subtraction, so this holds for
  every amount, a wrapped difference included.
\<close>

theorem health_never_negative:
  "0 \<le>s health (fst (foldl apply_operation (new_Player n, new_Enemy m) ops))
   \<and> 0 \<le>s health (snd (foldl apply_operation (new_Player n, new_Enemy m) ops))"
  by (rule foldl_apply_operation_nonneg)
    (simp add: new_Player_def new_Enemy_def word_sle_eq)

subsection \<open>The combat loop, one iteration at a time\<close>

lemma play_loop_step:
  assumes "player g = Some p" and "0 <s health p" and "0 <s health enemy"
    and "play_body enemy g = Some (Next, enemy', g')"
  shows "play_loop enemy g = play_loop enemy' g'"
  using assms by (subst play_loop.simps) (simp add: getHealth_def)

lemma play_loop_return:
  assumes "player g = Some p" and "0 <s health p" and "0 <s health enemy"
    and "play_body enemy g = Some (Return, enemy', g')"
  shows "play_loop enemy g = Some (Return, enemy', g')"
  using assms by (subst play_loop.simps) (simp add: getHealth_def)

lemma play_loop_exit:
  assumes "player g = Some p" and "\<not> (0 <s health p \<and> 0 <s health enemy)"
  shows "play_loop enemy g = Some (Next, enemy, g)"
  using assms by (subst play_loop.simps) (auto simp add: getHealth_def)

text \<open>
  C3. Take any iteration of the combat loop (the player and the enemy both have
  health above 0) in which the action read is 1. The iteration applies
  \<open>takeDamage 20\<close> to the enemy, whose health becomes \<open>max 0 (h - 20)\<close>. If the
  enemy's health is still above 0 after that, and only then, it applies
  \<open>takeDamage 15\<close> to the player, whose health becomes \<open>max 0 (h - 15)\<close>; otherwise
  the player is unchanged. The output of the turn is one attack message of the
  player and at most one of the enemy, and the loop goes on from the new state.
\<close>

theorem attack_turn:
  assumes "player g = Some p" and "0 <s health p" and "0 <s health enemy"
    and "play_choose enemy p g = (1, g3)"
  shows "\<exists>enemy' p' g'.
           play_body enemy g = Some (Next, enemy', g')
         \<and> play_loop enemy g = play_loop enemy' g'
         \<and> enemy' = takeDamage enemy 20
         \<and> sint (health enemy') = max 0 (sint (health enemy) - 20)
         \<and> player g' = Some p'
         \<and> p' = (if 0 <s health enemy' then takeDamage p 15 else p)
         \<and> sint (health p') = (if 0 < sint (health enemy') then max 0 (sint (health p) - 15)
                               else sint (health p))
         \<and> cout g' = cout g3 @ [name p @ '' attacks the enemy!\<newline>'']
                      @ (if 0 <s health enemy'
                         then [name enemy @ '' attacks the player!\<newline>''] else [])"
proof -
  define enemy' where "enemy' = takeDamage enemy 20"
  define p' where "p' = (if 0 <s health enemy' then takeDamage p 15 else p)"
  define g' where "g' = g3\<lparr>player := Some p',
      cout := cout g3 @ [name p @ '' attacks the enemy!\<newline>'']
              @ (if 0 <s health enemy' then [name enemy @ '' attacks the player!\<newline>''] else [])\<rparr>"
  have b: "play_body enemy g = Some (Next, enemy', g')"
    unfolding g'_def p'_def enemy'_def by (rule play_body_attack [OF assms(1,4)])
  have l: "play_loop enemy g = play_loop enemy' g'"
    by (rule play_loop_step [OF assms(1-3) b])
  have e: "0 \<le> sint (health enemy)" and p: "0 \<le> sint (health p)"
    using assms(2,3) by (simp_all add: word_sless_alt)
  have he: "sint (health enemy') = max 0 (sint (health enemy) - 20)"
    unfolding enemy'_def using takeDamage_sint [OF e, of 20] by simp
  have "sint (health (takeDamage p 15)) = max 0 (sint (health p) - 15)"
    using takeDamage_sint [OF p, of 15] by simp
  then have hp: "sint (health p') = (if 0 < sint (health enemy') then max 0 (sint (health p) - 15)
                               else sint (health p))"
    by (simp add: p'_def word_sless_alt)
  have "player g' = Some p'" and "cout g' = cout g3 @ [name p @ '' attacks the enemy!\<newline>'']
                      @ (if 0 <s health enemy'
                         then [name enemy @ '' attacks the player!\<newline>''] else [])"
    by (simp_all add: g'_def)
  with b l he hp show ?thesis
    using enemy'_def p'_def by blast
qed

text \<open>
  The theorem at the first turn of a new game with the input \<open>1\<close>: the Goblin is left
  with 30 and strikes back, the player is left with 85.
\<close>

theorem attack_turn_witness:
  "\<exists>enemy' p' g'.
     play_body (new_Enemy ''Goblin'')
       \<lparr>player = Some (new_Player ''Hero''), cin = \<lparr>buf = ''1\<newline>'', good = True\<rparr>,
        cout = [], cerr = [], game_state_txt = None, readable = True, writable = True\<rparr>
     = Some (Next, enemy', g')
     \<and> sint (health enemy') = 30 \<and> player g' = Some p' \<and> sint (health p') = 85"
proof -
  define g :: Game where
    "g = \<lparr>player = Some (new_Player ''Hero''), cin = \<lparr>buf = ''1\<newline>'', good = True\<rparr>,
          cout = [], cerr = [], game_state_txt = None, readable = True, writable = True\<rparr>"
  define g3 where "g3 = snd (play_choose (new_Enemy ''Goblin'') (new_Player ''Hero'') g)"
  have 1: "player g = Some (new_Player ''Hero'')"
    by (simp add: g_def)
  have 2: "0 <s health (new_Player ''Hero'')"
    by (simp add: new_Player_def word_sless_alt)
  have 3: "0 <s health (new_Enemy ''Goblin'')"
    by (simp add: new_Enemy_def word_sless_alt)
  have "fst (play_choose (new_Enemy ''Goblin'') (new_Player ''Hero'') g) = 1"
    by (simp add: play_choose_eq g_def stream_defs Let_def)
  then have 4: "play_choose (new_Enemy ''Goblin'') (new_Player ''Hero'') g = (1, g3)"
    by (simp add: g3_def prod_eq_iff)
  have 5: "sint (health (new_Enemy ''Goblin'')) = 50" "sint (health (new_Player ''Hero'')) = 100"
    by (simp_all add: new_Enemy_def new_Player_def)
  from attack_turn [OF 1 2 3 4] show ?thesis
    unfolding g_def [symmetric] by (auto simp add: 5)
qed





subsection \<open>A whole bout\<close>

lemmas run_defs = play_body_def play_choose_def stream_defs Let_def Player_attack_def
  Enemy_attack_def collectTreasure_def takeDamage_def getHealth_def getName_def
  word_sless_alt word_sle_eq Player_displayStats_def Enemy_displayStats_def show_int_def
  digits.simps new_Player_def new_Enemy_def

text \<open>
  C5. Start \<open>play\<close> with a freshly constructed player (health 100) of any name
  and the input \<open>1 1 1\<close>, one action a line; the enemy is the Goblin of health 50.
  The three iterations are attacks. The enemy's health goes 50, 30, 10, 0 and the
  player's 100, 85, 70, 70: the enemy strikes back in the first two turns only. After
  the third attack the loop ends, \<open>play\<close> writes the victory message and deletes the
  player. The output of the three turns is given in full.
\<close>

theorem victory_in_three_attacks:
  "let g0 = g\<lparr>player := Some (new_Player n),
                cin := \<lparr>buf = ''1\<newline>1\<newline>1\<newline>'', good = True\<rparr>\<rparr>;
       e0 = new_Enemy ''Goblin''
   in \<exists>e1 g1 p1 e2 g2 p2 e3 g3 p3.
        sint (health (new_Player n)) = 100 \<and> sint (health e0) = 50
      \<and> play_body e0 g0 = Some (Next, e1, g1) \<and> player g1 = Some p1
      \<and> sint (health e1) = 30 \<and> sint (health p1) = 85
      \<and> play_body e1 g1 = Some (Next, e2, g2) \<and> player g2 = Some p2
      \<and> sint (health e2) = 10 \<and> sint (health p2) = 70
      \<and> play_body e2 g2 = Some (Next, e3, g3) \<and> player g3 = Some p3
      \<and> sint (health e3) = 0 \<and> sint (health p3) = 70
      \<and> play_loop e0 g0 = Some (Next, e3, g3)
      \<and> play g0 = Some (g3\<lparr>cout := cout g3 @ [victory_message], player := None\<rparr>)
      \<and> cout g3 = cout g @
           [''Player: '' @ n @ '', Health: 100, Treasures: 0\<newline>'',
            ''Enemy: Goblin, Health: 50\<newline>'', action_prompt,
            n @ '' attacks the enemy!\<newline>'', ''Goblin attacks the player!\<newline>'',
            ''Player: '' @ n @ '', Health: 85, Treasures: 0\<newline>'',
            ''Enemy: Goblin, Health: 30\<newline>'', action_prompt,
            n @ '' attacks the enemy!\<newline>'', ''Goblin attacks the player!\<newline>'',
            ''Player: '' @ n @ '', Health: 70, Treasures: 0\<newline>'',
            ''Enemy: Goblin, Health: 10\<newline>'', action_prompt,
            n @ '' attacks the enemy!\<newline>'']"
proof -
  define g0 where "g0 = g\<lparr>player := Some (new_Player n),
                cin := \<lparr>buf = ''1\<newline>1\<newline>1\<newline>'', good = True\<rparr>\<rparr>"
  define e0 :: Enemy where "e0 = new_Enemy ''Goblin''"
  define e1 :: Enemy where "e1 = \<lparr>name = ''Goblin'', health = 30\<rparr>"
  define e2 :: Enemy where "e2 = \<lparr>name = ''Goblin'', health = 10\<rparr>"
  define e3 :: Enemy where "e3 = \<lparr>name = ''Goblin'', health = 0\<rparr>"
  define p1 :: Player where "p1 = \<lparr>name = n, health = 85, treasuresCollected = 0\<rparr>"
  define p2 :: Player where "p2 = \<lparr>name = n, health = 70, treasuresCollected = 0\<rparr>"
  define out1 where "out1 = cout g @
           [''Player: '' @ n @ '', Health: 100, Treasures: 0\<newline>'',
            ''Enemy: Goblin, Health: 50\<newline>'', action_prompt,
            n @ '' attacks the enemy!\<newline>'', ''Goblin attacks the player!\<newline>'']"
  define out2 where "out2 = out1 @
           [''Player: '' @ n @ '', Health: 85, Treasures: 0\<newline>'',
            ''Enemy: Goblin, Health: 30\<newline>'', action_prompt,
            n @ '' attacks the enemy!\<newline>'', ''Goblin attacks the player!\<newline>'']"
  define out3 where "out3 = out2 @
           [''Player: '' @ n @ '', Health: 70, Treasures: 0\<newline>'',
            ''Enemy: Goblin, Health: 10\<newline>'', action_prompt,
            n @ '' attacks the enemy!\<newline>'']"
  define g1 where "g1 = g\<lparr>player := Some p1,
      cin := \<lparr>buf = ''\<newline>1\<newline>1\<newline>'', good = True\<rparr>, cout := out1\<rparr>"
  define g2 where "g2 = g\<lparr>player := Some p2,
      cin := \<lparr>buf = ''\<newline>1\<newline>'', good = True\<rparr>, cout := out2\<rparr>"
  define g3 where "g3 = g\<lparr>player := Some p2,
      cin := \<lparr>buf = ''\<newline>'', good = True\<rparr>, cout := out3\<rparr>"
  have b1: "play_body e0 g0 = Some (Next, e1, g1)"
    by (simp add: e0_def g0_def e1_def g1_def p1_def out1_def run_defs)
  have b2: "play_body e1 g1 = Some (Next, e2, g2)"
    by (simp add: e1_def g1_def p1_def e2_def g2_def p2_def out2_def run_defs)
  have b3: "play_body e2 g2 = Some (Next, e3, g3)"
    by (simp add: e2_def g2_def e3_def g3_def p2_def out3_def run_defs)
  have h: "sint (health (new_Player n)) = 100" "sint (health e0) = 50"
    "sint (health e1) = 30" "sint (health p1) = 85"
    "sint (health e2) = 10" "sint (health p2) = 70" "sint (health e3) = 0"
    by (simp_all add: new_Player_def e0_def new_Enemy_def e1_def e2_def e3_def p1_def p2_def)
  have hw: "health (new_Player n) = 100" "health e0 = 50" "health e1 = 30" "health p1 = 85"
    "health e2 = 10" "health p2 = 70" "health e3 = 0"
    by (simp_all add: new_Player_def e0_def new_Enemy_def e1_def e2_def e3_def p1_def p2_def)
  have pl: "player g0 = Some (new_Player n)" "player g1 = Some p1" "player g2 = Some p2"
    "player g3 = Some p2"
    by (simp_all add: g0_def g1_def g2_def g3_def)
  have "play_loop e0 g0 = play_loop e1 g1"
    by (rule play_loop_step [OF pl(1) _ _ b1]) (simp_all add: hw word_sless_alt)
  also have "\<dots> = play_loop e2 g2"
    by (rule play_loop_step [OF pl(2) _ _ b2]) (simp_all add: hw word_sless_alt)
  also have "\<dots> = play_loop e3 g3"
    by (rule play_loop_step [OF pl(3) _ _ b3]) (simp_all add: hw word_sless_alt)
  also have "\<dots> = Some (Next, e3, g3)"
    by (rule play_loop_exit [OF pl(4)]) (simp add: hw word_sless_alt)
  finally have l: "play_loop e0 g0 = Some (Next, e3, g3)" .
  have "play_end e3 g3 = Some (g3\<lparr>cout := cout g3 @ [victory_message], player := None\<rparr>)"
    using pl(4) by (simp add: play_end_def getHealth_def hw word_sle_eq)
  with l have w: "play g0 = Some (g3\<lparr>cout := cout g3 @ [victory_message], player := None\<rparr>)"
    by (simp add: play_def e0_def)
  have c: "cout g3 = cout g @
           [''Player: '' @ n @ '', Health: 100, Treasures: 0\<newline>'',
            ''Enemy: Goblin, Health: 50\<newline>'', action_prompt,
            n @ '' attacks the enemy!\<newline>'', ''Goblin attacks the player!\<newline>'',
            ''Player: '' @ n @ '', Health: 85, Treasures: 0\<newline>'',
            ''Enemy: Goblin, Health: 30\<newline>'', action_prompt,
            n @ '' attacks the enemy!\<newline>'', ''Goblin attacks the player!\<newline>'',
            ''Player: '' @ n @ '', Health: 70, Treasures: 0\<newline>'',
            ''Enemy: Goblin, Health: 10\<newline>'', action_prompt,
            n @ '' attacks the enemy!\<newline>'']"
    by (simp add: g3_def out3_def out2_def out1_def)
  from h b1 b2 b3 pl l w c show ?thesis
    unfolding Let_def g0_def [symmetric] e0_def [symmetric] by blast
qed

subsection \<open>Save and exit\<close>

text \<open>
  C7. First part: in any iteration of the combat loop in which the action read is
  3, \<open>saveGame\<close> runs on the state that still holds the current player (it writes
  the player's name and health, or reports that the file cannot be opened), the
  player is deleted, and the loop returns at once, the enemy untouched. Second
  part: whenever the loop of \<open>play\<close> leaves through that \<open>return\<close>, \<open>play\<close> returns
  the state as it is, with no player, and nothing that the whole run has written to
  \<open>cout\<close> is the victory or the defeat message.
\<close>

theorem save_and_exit:
  "(player g = Some p \<and> 0 <s health p \<and> 0 <s health enemy
      \<and> play_choose enemy p g = (3, g3) \<longrightarrow>
      player g3 = Some p
      \<and> (\<exists>g4. saveGame g3 = Some g4
             \<and> g4 = (if writable g3
                      then g3\<lparr>game_state_txt :=
                                 Some (name p @ ''\<newline>'' @ show_int (health p) @ ''\<newline>''),
                              cout := cout g3 @ [''Game state saved successfully.\<newline>'']\<rparr>
                      else g3\<lparr>cerr := cerr g3 @ [save_error_message]\<rparr>)
             \<and> play_body enemy g = Some (Return, enemy, g4\<lparr>player := None\<rparr>)
             \<and> play_loop enemy g = Some (Return, enemy, g4\<lparr>player := None\<rparr>)))
   \<and> (play_loop (new_Enemy ''Goblin'') g = Some (Return, enemy', g') \<longrightarrow>
        play g = Some g' \<and> player g' = None
        \<and> (\<exists>new. cout g' = cout g @ new
               \<and> victory_message \<notin> set new \<and> defeat_message \<notin> set new))"
proof (intro conjI impI)
  assume a: "player g = Some p \<and> 0 <s health p \<and> 0 <s health enemy
      \<and> play_choose enemy p g = (3, g3)"
  then have c: "play_choose enemy p g = (3, g3)" and pg: "player g = Some p"
    and hp: "0 <s health p" and he: "0 <s health enemy"
    by simp_all
  from c pg show p3: "player g3 = Some p"
    by (simp add: play_choose_player)
  define g4 where "g4 = (if writable g3
                      then g3\<lparr>game_state_txt :=
                                 Some (name p @ ''\<newline>'' @ show_int (health p) @ ''\<newline>''),
                              cout := cout g3 @ [''Game state saved successfully.\<newline>'']\<rparr>
                      else g3\<lparr>cerr := cerr g3 @ [save_error_message]\<rparr>)"
  have s: "saveGame g3 = Some g4"
    unfolding g4_def by (rule saveGame_player [OF p3])
  then have b: "play_body enemy g = Some (Return, enemy, g4\<lparr>player := None\<rparr>)"
    by (simp add: play_body_save [OF pg c])
  have "play_loop enemy g = Some (Return, enemy, g4\<lparr>player := None\<rparr>)"
    by (rule play_loop_return [OF pg hp he b])
  with s b show "\<exists>g4. saveGame g3 = Some g4
             \<and> g4 = (if writable g3
                      then g3\<lparr>game_state_txt :=
                                 Some (name p @ ''\<newline>'' @ show_int (health p) @ ''\<newline>''),
                              cout := cout g3 @ [''Game state saved successfully.\<newline>'']\<rparr>
                      else g3\<lparr>cerr := cerr g3 @ [save_error_message]\<rparr>)
             \<and> play_body enemy g = Some (Return, enemy, g4\<lparr>player := None\<rparr>)
             \<and> play_loop enemy g = Some (Return, enemy, g4\<lparr>player := None\<rparr>)"
    using g4_def by blast
next
  assume l: "play_loop (new_Enemy ''Goblin'') g = Some (Return, enemy', g')"
  then show "play g = Some g'"
    by (simp add: play_def)
  from play_loop_Return [OF l] show "player g' = None"
    by simp
  from play_loop_Return [OF l]
  show "\<exists>new. cout g' = cout g @ new \<and> victory_message \<notin> set new \<and> defeat_message \<notin> set new"
    by (simp add: no_outcome_def)
qed

text \<open>
  Both parts of the theorem at a new game with the input \<open>3\<close>: \<open>play\<close> returns after
  the stats, the prompt and the confirmation of the save, with the file written.
\<close>

theorem save_and_exit_witness:
  "play \<lparr>player = Some (new_Player ''Hero''), cin = \<lparr>buf = ''3\<newline>'', good = True\<rparr>,
         cout = [], cerr = [], game_state_txt = None, readable = True, writable = True\<rparr>
   = Some \<lparr>player = None, cin = \<lparr>buf = ''\<newline>'', good = True\<rparr>,
           cout = [''Player: Hero, Health: 100, Treasures: 0\<newline>'',
                   ''Enemy: Goblin, Health: 50\<newline>'', action_prompt,
                   ''Game state saved successfully.\<newline>''],
           cerr = [], game_state_txt = Some ''Hero\<newline>100\<newline>'',
           readable = True, writable = True\<rparr>"
proof -
  define pl where "pl = new_Player ''Hero''"
  define en where "en = new_Enemy ''Goblin''"
  define g :: Game where
    "g = \<lparr>player = Some pl, cin = \<lparr>buf = ''3\<newline>'', good = True\<rparr>,
         cout = [], cerr = [], game_state_txt = None, readable = True, writable = True\<rparr>"
  define g3 :: Game where
    "g3 = \<lparr>player = Some pl, cin = \<lparr>buf = ''\<newline>'', good = True\<rparr>,
         cout = [''Player: Hero, Health: 100, Treasures: 0\<newline>'',
                   ''Enemy: Goblin, Health: 50\<newline>'', action_prompt],
         cerr = [], game_state_txt = None, readable = True, writable = True\<rparr>"
  define g' :: Game where
    "g' = \<lparr>player = None, cin = \<lparr>buf = ''\<newline>'', good = True\<rparr>,
           cout = [''Player: Hero, Health: 100, Treasures: 0\<newline>'',
                   ''Enemy: Goblin, Health: 50\<newline>'', action_prompt,
                   ''Game state saved successfully.\<newline>''],
           cerr = [], game_state_txt = Some ''Hero\<newline>100\<newline>'',
           readable = True, writable = True\<rparr>"
  have sh: "show_int 100 = ''100''" "show_int 50 = ''50''" "show_int 0 = ''0''"
    by (simp_all add: show_int_def digits.simps)
  have ex: "extract_int \<lparr>buf = ''3\<newline>'', good = True\<rparr> 0 = (3, \<lparr>buf = ''\<newline>'', good = True\<rparr>)"
    by (simp add: stream_defs Let_def)
  have c: "play_choose en pl g = (3, g3)"
    by (simp add: play_choose_eq g_def g3_def ex Player_displayStats_def Enemy_displayStats_def
        pl_def en_def new_Player_def new_Enemy_def sh)
  have 1: "player g = Some pl \<and> 0 <s health pl \<and> 0 <s health en
      \<and> play_choose en pl g = (3, g3)"
    using c by (simp add: g_def pl_def en_def new_Player_def new_Enemy_def word_sless_alt)
  from save_and_exit [of g pl en g3, THEN conjunct1, rule_format, OF 1]
  obtain g4 where g4: "g4 = (if writable g3
                      then g3\<lparr>game_state_txt :=
                                 Some (name pl @ ''\<newline>'' @ show_int (health pl) @ ''\<newline>''),
                              cout := cout g3 @ [''Game state saved successfully.\<newline>'']\<rparr>
                      else g3\<lparr>cerr := cerr g3 @ [save_error_message]\<rparr>)"
    and l: "play_loop en g = Some (Return, en, g4\<lparr>player := None\<rparr>)"
    by blast
  have "g4\<lparr>player := None\<rparr> = g'"
    unfolding g4 by (simp add: g3_def g'_def pl_def new_Player_def sh)
  with l have "play_loop (new_Enemy ''Goblin'') g = Some (Return, en, g')"
    by (simp add: en_def)
  from save_and_exit [of g pl en g3 en g', THEN conjunct2, rule_format, OF this]
  have "play g = Some g'" by simp
  then show ?thesis by (simp add: g_def g'_def pl_def)
qed

subsection \<open>Loading fails\<close>

lemma menu_choose_eq:
  "menu_choose choice g =
     (fst (extract_int (cin g) choice),
      g\<lparr>cout := cout g @ [''1. Start Game\<newline>2. Load Game\<newline>3. Exit\<newline>'',
                         ''Choose an option: ''],
        cin := snd (extract_int (cin g) choice)\<rparr>)"
  by (simp add: menu_choose_def Let_def split: prod.splits)

lemma loadGame_unopened:
  assumes "open_ifstream g = None"
  shows "loadGame indet g =
           Some (g\<lparr>cerr := cerr g @ [load_error_message]\<rparr>)"
  using assms by (simp add: loadGame_def)

text \<open>
  C8. When \<open>game_state.txt\<close> cannot be opened for reading (there is no such file,
  or it is not readable), \<open>loadGame\<close> returns the state it was given with one
  message more on \<open>cerr\<close>: \<open>player\<close> is what it was, so no player is constructed;
  nothing is read from \<open>cin\<close> and nothing is written to \<open>cout\<close>, so the combat
  loop is not entered. In the menu loop, an iteration that reads the choice 2 then
  goes on with the next iteration of the menu from exactly that state.
\<close>

theorem load_failure:
  assumes "open_ifstream g = None"
  shows "loadGame indet g =
           Some (g\<lparr>cerr := cerr g @ [load_error_message]\<rparr>)
         \<and> (choice \<noteq> 3 \<and> fst (menu_choose choice g) = 2 \<longrightarrow>
              player (snd (menu_choose choice g)) = player g
            \<and> displayMenu_loop indet choice g =
                displayMenu_loop indet 2
                  ((snd (menu_choose choice g))\<lparr>cerr := cerr g @ [load_error_message]\<rparr>))"
proof (intro conjI impI)
  show "loadGame indet g =
           Some (g\<lparr>cerr := cerr g @ [load_error_message]\<rparr>)"
    by (rule loadGame_unopened [OF assms])
next
  assume a: "choice \<noteq> 3 \<and> fst (menu_choose choice g) = 2"
  define g3 where "g3 = snd (menu_choose choice g)"
  from a have m: "menu_choose choice g = (2, g3)"
    by (simp add: g3_def prod_eq_iff)
  show "player (snd (menu_choose choice g)) = player g"
    by (simp add: menu_choose_eq)
  have "open_ifstream g3 = open_ifstream g" and c: "cerr g3 = cerr g"
    by (simp_all add: g3_def menu_choose_eq open_ifstream_def split: option.splits)
  with assms have "open_ifstream g3 = None"
    by simp
  with c have "loadGame indet g3 =
           Some (g3\<lparr>cerr := cerr g @ [load_error_message]\<rparr>)"
    by (simp add: loadGame_unopened)
  with a m have "displayMenu_loop indet choice g =
                displayMenu_loop indet 2
                  (g3\<lparr>cerr := cerr g @ [load_error_message]\<rparr>)"
    by (subst displayMenu_loop.simps) simp
  then show "displayMenu_loop indet choice g =
                displayMenu_loop indet 2
                  ((snd (menu_choose choice g))\<lparr>cerr := cerr g @ [load_error_message]\<rparr>)"
    unfolding g3_def .
qed

text \<open>
  The theorem in a run of the menu with no file and the input \<open>2 3\<close>: the error is
  reported, the menu is shown again and the choice 3 ends it.
\<close>

theorem load_failure_witness:
  "displayMenu 0 \<lparr>player = None, cin = \<lparr>buf = ''2\<newline>3\<newline>'', good = True\<rparr>,
         cout = [], cerr = [], game_state_txt = None, readable = True, writable = True\<rparr>
   = Some \<lparr>player = None, cin = \<lparr>buf = ''\<newline>'', good = True\<rparr>,
           cout = [''1. Start Game\<newline>2. Load Game\<newline>3. Exit\<newline>'',
                   ''Choose an option: '',
                   ''1. Start Game\<newline>2. Load Game\<newline>3. Exit\<newline>'',
                   ''Choose an option: '',
                   ''Thank you for playing Mystic Quest!\<newline>''],
           cerr = [load_error_message],
           game_state_txt = None, readable = True, writable = True\<rparr>"
proof -
  define g :: Game where
    "g = \<lparr>player = None, cin = \<lparr>buf = ''2\<newline>3\<newline>'', good = True\<rparr>,
         cout = [], cerr = [], game_state_txt = None, readable = True, writable = True\<rparr>"
  define g1 :: Game where
    "g1 = \<lparr>player = None, cin = \<lparr>buf = ''\<newline>3\<newline>'', good = True\<rparr>,
         cout = [''1. Start Game\<newline>2. Load Game\<newline>3. Exit\<newline>'',
                   ''Choose an option: ''],
         cerr = [load_error_message],
         game_state_txt = None, readable = True, writable = True\<rparr>"
  have o: "open_ifstream g = None"
    by (simp add: open_ifstream_def g_def)
  have ex: "extract_int \<lparr>buf = ''2\<newline>3\<newline>'', good = True\<rparr> 0
              = (2, \<lparr>buf = ''\<newline>3\<newline>'', good = True\<rparr>)"
    "extract_int \<lparr>buf = ''\<newline>3\<newline>'', good = True\<rparr> 2
              = (3, \<lparr>buf = ''\<newline>'', good = True\<rparr>)"
    by (simp_all add: stream_defs Let_def)
  have m: "(0::cint) \<noteq> 3 \<and> fst (menu_choose 0 g) = 2"
    by (simp add: menu_choose_eq g_def ex)
  have "(snd (menu_choose 0 g))\<lparr>cerr := cerr g @ [load_error_message]\<rparr> = g1"
    by (simp add: menu_choose_eq g_def g1_def ex)
  with load_failure [OF o, of 0 0, THEN conjunct2, rule_format, OF m]
  have "displayMenu_loop 0 0 g = displayMenu_loop 0 2 g1"
    by simp
  also have "\<dots> = displayMenu_loop 0 3
      (g1\<lparr>cin := \<lparr>buf = ''\<newline>'', good = True\<rparr>,
          cout := cout g1 @ [''1. Start Game\<newline>2. Load Game\<newline>3. Exit\<newline>'',
                   ''Choose an option: '', ''Thank you for playing Mystic Quest!\<newline>'']\<rparr>)"
    by (subst displayMenu_loop.simps) (simp add: menu_choose_eq g1_def ex)
  also have "\<dots> = Some (g1\<lparr>cin := \<lparr>buf = ''\<newline>'', good = True\<rparr>,
          cout := cout g1 @ [''1. Start Game\<newline>2. Load Game\<newline>3. Exit\<newline>'',
                   ''Choose an option: '', ''Thank you for playing Mystic Quest!\<newline>'']\<rparr>)"
    by (subst displayMenu_loop.simps) simp
  finally show ?thesis
    by (simp add: displayMenu_def g_def g1_def)
qed

subsection \<open>Loading a file whose health does not parse\<close>

lemma loadGame_opened:
  assumes "open_ifstream g = Some ifs"
  shows "loadGame indet g =
           play (g\<lparr>player := Some (loadGame_read indet ifs),
                   cout := cout g @ [''Game state loaded successfully.\<newline>'']\<rparr>)"
  using assms by (simp add: loadGame_def Let_def)

lemma play_dead_at_once:
  assumes "player g = Some p" and "health p \<le>s 0"
  shows "play g = Some (g\<lparr>cout := cout g @ [defeat_message], player := None\<rparr>)"
proof -
  from assms(2) have "\<not> 0 <s health p"
    by (simp add: word_sless_alt word_sle_eq)
  then have "play_loop (new_Enemy ''Goblin'') g = Some (Next, new_Enemy ''Goblin'', g)"
    by (intro play_loop_exit [OF assms(1)]) simp
  then show ?thesis
    using assms by (simp add: play_def play_end_def getHealth_def)
qed

lemma play_save_at_once:
  assumes "player g = Some p" and "0 <s health p"
    and "play_choose (new_Enemy ''Goblin'') p g = (3, g3)" and "writable g"
  shows "play g =
           Some (g3\<lparr>game_state_txt :=
                        Some (name p @ ''\<newline>'' @ show_int (health p) @ ''\<newline>''),
                    cout := cout g3 @ [''Game state saved successfully.\<newline>''],
                    player := None\<rparr>)"
proof -
  have e: "0 <s health (new_Enemy ''Goblin'')"
    by (simp add: new_Enemy_def word_sless_alt)
  have "player g3 = Some p" and "writable g3"
    using assms(1,3,4) by (auto simp add: play_choose_eq)
  then have "saveGame g3 =
           Some (g3\<lparr>game_state_txt :=
                        Some (name p @ ''\<newline>'' @ show_int (health p) @ ''\<newline>''),
                    cout := cout g3 @ [''Game state saved successfully.\<newline>'']\<rparr>)"
    by (simp add: saveGame_player)
  then have "play_body (new_Enemy ''Goblin'') g =
           Some (Return, new_Enemy ''Goblin'',
                 g3\<lparr>game_state_txt :=
                        Some (name p @ ''\<newline>'' @ show_int (health p) @ ''\<newline>''),
                    cout := cout g3 @ [''Game state saved successfully.\<newline>''],
                    player := None\<rparr>)"
    by (simp add: play_body_save [OF assms(1,3)])
  from play_loop_return [OF assms(1,2) e this] show ?thesis
    by (simp add: play_def)
qed

lemma loadGame_read_eq:
  "loadGame_read indet ifs =
     loadGame_adjust (fst (extract_string ifs []))
       (fst (extract_int (snd (extract_string ifs [])) indet))"
  by (simp add: loadGame_read_def split: prod.splits)

text \<open>
  C10, as stated, fails on two kinds of content for which the extraction of the
  health fails. First conjunct: the file \<open>Hero 99999999999\<close>. The number does not
  fit an \<open>int\<close>, so the extraction fails and stores \<open>INT_MAX\<close>, not 0; the player
  is loaded with health 2147483647 and the combat loop is entered (here it reads
  the action 3 and saves). Second conjunct: the file holds the name only. The
  stream ends before any character of a number, so \<open>playerHealth\<close> is not written
  at all and is used uninitialised; with 57 in it the player is loaded with
  health 57 and the combat loop is entered. Neither run writes the defeat message.
\<close>

theorem load_bad_content_counterexample:
  "loadGame 0 \<lparr>player = None, cin = \<lparr>buf = ''3\<newline>'', good = True\<rparr>,
         cout = [], cerr = [], game_state_txt = Some ''Hero 99999999999\<newline>'',
         readable = True, writable = True\<rparr>
   = Some \<lparr>player = None, cin = \<lparr>buf = ''\<newline>'', good = True\<rparr>,
           cout = [''Game state loaded successfully.\<newline>'',
                   ''Player: Hero, Health: 2147483647, Treasures: 0\<newline>'',
                   ''Enemy: Goblin, Health: 50\<newline>'', action_prompt,
                   ''Game state saved successfully.\<newline>''],
           cerr = [], game_state_txt = Some ''Hero\<newline>2147483647\<newline>'',
           readable = True, writable = True\<rparr>
   \<and> loadGame 57 \<lparr>player = None, cin = \<lparr>buf = ''3\<newline>'', good = True\<rparr>,
         cout = [], cerr = [], game_state_txt = Some ''Hero\<newline>'',
         readable = True, writable = True\<rparr>
   = Some \<lparr>player = None, cin = \<lparr>buf = ''\<newline>'', good = True\<rparr>,
           cout = [''Game state loaded successfully.\<newline>'',
                   ''Player: Hero, Health: 57, Treasures: 0\<newline>'',
                   ''Enemy: Goblin, Health: 50\<newline>'', action_prompt,
                   ''Game state saved successfully.\<newline>''],
           cerr = [], game_state_txt = Some ''Hero\<newline>57\<newline>'',
           readable = True, writable = True\<rparr>"
proof -
  have ex: "extract_int \<lparr>buf = ''3\<newline>'', good = True\<rparr> 0 = (3, \<lparr>buf = ''\<newline>'', good = True\<rparr>)"
    by (simp add: stream_defs Let_def)
  have sh: "show_int 2147483647 = ''2147483647''" "show_int 57 = ''57''"
    "show_int 50 = ''50''" "show_int 0 = ''0''"
    by (simp_all add: show_int_def digits.simps)
  have r1: "loadGame_read 0 (ifstream_open ''Hero 99999999999\<newline>'')
          = \<lparr>name = ''Hero'', health = 2147483647, treasuresCollected = 0\<rparr>"
    by (simp add: loadGame_read_def loadGame_adjust_def new_Player_def takeDamage_def
        stream_defs Let_def word_sless_alt)
  have r2: "loadGame_read 57 (ifstream_open ''Hero\<newline>'')
          = \<lparr>name = ''Hero'', health = 57, treasuresCollected = 0\<rparr>"
    by (simp add: loadGame_read_def loadGame_adjust_def new_Player_def takeDamage_def
        stream_defs Let_def word_sless_alt)
  define g1 :: Game where
    "g1 = \<lparr>player = Some \<lparr>name = ''Hero'', health = 2147483647, treasuresCollected = 0\<rparr>,
          cin = \<lparr>buf = ''3\<newline>'', good = True\<rparr>,
          cout = [''Game state loaded successfully.\<newline>''], cerr = [],
          game_state_txt = Some ''Hero 99999999999\<newline>'', readable = True, writable = True\<rparr>"
  define g2 :: Game where
    "g2 = \<lparr>player = Some \<lparr>name = ''Hero'', health = 57, treasuresCollected = 0\<rparr>,
          cin = \<lparr>buf = ''3\<newline>'', good = True\<rparr>,
          cout = [''Game state loaded successfully.\<newline>''], cerr = [],
          game_state_txt = Some ''Hero\<newline>'', readable = True, writable = True\<rparr>"
  have l1: "loadGame 0 \<lparr>player = None, cin = \<lparr>buf = ''3\<newline>'', good = True\<rparr>,
         cout = [], cerr = [], game_state_txt = Some ''Hero 99999999999\<newline>'',
         readable = True, writable = True\<rparr> = play g1"
    by (subst loadGame_opened [of _ "ifstream_open ''Hero 99999999999\<newline>''"])
      (simp_all add: open_ifstream_def r1 g1_def)
  have l2: "loadGame 57 \<lparr>player = None, cin = \<lparr>buf = ''3\<newline>'', good = True\<rparr>,
         cout = [], cerr = [], game_state_txt = Some ''Hero\<newline>'',
         readable = True, writable = True\<rparr> = play g2"
    by (subst loadGame_opened [of _ "ifstream_open ''Hero\<newline>''"])
      (simp_all add: open_ifstream_def r2 g2_def)
  have p1: "play g1 = Some \<lparr>player = None, cin = \<lparr>buf = ''\<newline>'', good = True\<rparr>,
           cout = [''Game state loaded successfully.\<newline>'',
                   ''Player: Hero, Health: 2147483647, Treasures: 0\<newline>'',
                   ''Enemy: Goblin, Health: 50\<newline>'', action_prompt,
                   ''Game state saved successfully.\<newline>''],
           cerr = [], game_state_txt = Some ''Hero\<newline>2147483647\<newline>'',
           readable = True, writable = True\<rparr>"
    by (subst play_save_at_once [of g1 "\<lparr>name = ''Hero'', health = 2147483647, treasuresCollected = 0\<rparr>"
          "snd (play_choose (new_Enemy ''Goblin'') \<lparr>name = ''Hero'', health = 2147483647, treasuresCollected = 0\<rparr> g1)"])
      (simp_all add: g1_def play_choose_eq ex word_sless_alt sh Player_displayStats_def
        Enemy_displayStats_def new_Enemy_def)
  have p2: "play g2 = Some \<lparr>player = None, cin = \<lparr>buf = ''\<newline>'', good = True\<rparr>,
           cout = [''Game state loaded successfully.\<newline>'',
                   ''Player: Hero, Health: 57, Treasures: 0\<newline>'',
                   ''Enemy: Goblin, Health: 50\<newline>'', action_prompt,
                   ''Game state saved successfully.\<newline>''],
           cerr = [], game_state_txt = Some ''Hero\<newline>57\<newline>'',
           readable = True, writable = True\<rparr>"
    by (subst play_save_at_once [of g2 "\<lparr>name = ''Hero'', health = 57, treasuresCollected = 0\<rparr>"
          "snd (play_choose (new_Enemy ''Goblin'') \<lparr>name = ''Hero'', health = 57, treasuresCollected = 0\<rparr> g2)"])
      (simp_all add: g2_def play_choose_eq ex word_sless_alt sh Player_displayStats_def
        Enemy_displayStats_def new_Enemy_def)
  from l1 l2 p1 p2 show ?thesis by simp
qed

text \<open>
  C10, amended. The file can be opened, the stream is still good after the name and
  a further token follows that does not begin with a decimal integer (an optional
  sign, then a digit), so the conversion is attempted and fails. Then \<open>loadGame\<close>
  reports no error: the health read is 0, the player is the fresh one after
  \<open>takeDamage 100\<close>, at health 0, and \<open>play\<close> ends at once, reading nothing, with
  the defeat message and the player deleted. Only the opening of the file is
  checked.
\<close>

theorem load_unparsable_health:
  assumes "open_ifstream g = Some ifs"
    and "extract_string ifs [] = (n, ifs1)"
    and "good ifs1" and "dropWhile isspace (buf ifs1) \<noteq> []"
    and "fst (num_get (dropWhile isspace (buf ifs1))) = None"
  shows "fst (extract_int ifs1 indet) = 0
         \<and> loadGame_read indet ifs = \<lparr>name = n, health = 0, treasuresCollected = 0\<rparr>
         \<and> loadGame_read indet ifs = takeDamage (new_Player n) 100
         \<and> loadGame indet g =
             Some (g\<lparr>cout := cout g @ [''Game state loaded successfully.\<newline>'',
                                       defeat_message],
                     player := None\<rparr>)"
proof -
  obtain rest' where "num_get (dropWhile isspace (buf ifs1)) = (None, rest')"
    using assms(5) by (cases "num_get (dropWhile isspace (buf ifs1))") simp
  with assms(3,4) have x: "fst (extract_int ifs1 indet) = 0"
    by (auto simp add: extract_int_def Let_def)
  with assms(2) have r: "loadGame_read indet ifs = \<lparr>name = n, health = 0, treasuresCollected = 0\<rparr>"
    by (simp add: loadGame_read_eq loadGame_adjust_def new_Player_def takeDamage_def Let_def)
  have t: "takeDamage (new_Player n) 100 = \<lparr>name = n, health = 0, treasuresCollected = 0\<rparr>"
    by (simp add: new_Player_def takeDamage_def Let_def)
  define g2 where "g2 = g\<lparr>player := Some (loadGame_read indet ifs),
                   cout := cout g @ [''Game state loaded successfully.\<newline>'']\<rparr>"
  have "player g2 = Some \<lparr>name = n, health = 0, treasuresCollected = 0\<rparr>"
    by (simp add: g2_def r)
  then have "play g2 = Some (g2\<lparr>cout := cout g2 @ [defeat_message], player := None\<rparr>)"
    by (rule play_dead_at_once) simp
  then have "loadGame indet g =
             Some (g\<lparr>cout := cout g @ [''Game state loaded successfully.\<newline>'',
                                       defeat_message],
                     player := None\<rparr>)"
    by (simp add: loadGame_opened [OF assms(1)] g2_def)
  with x r t show ?thesis by simp
qed

text \<open>
  The theorem at the file \<open>Hero abc\<close>: the pending input \<open>3\<close> is not read.
\<close>

theorem load_unparsable_health_witness:
  "loadGame 57 \<lparr>player = None, cin = \<lparr>buf = ''3\<newline>'', good = True\<rparr>,
         cout = [], cerr = [], game_state_txt = Some ''Hero abc\<newline>'',
         readable = True, writable = True\<rparr>
   = Some \<lparr>player = None, cin = \<lparr>buf = ''3\<newline>'', good = True\<rparr>,
           cout = [''Game state loaded successfully.\<newline>'', defeat_message],
           cerr = [], game_state_txt = Some ''Hero abc\<newline>'',
           readable = True, writable = True\<rparr>"
proof -
  define g :: Game where
    "g = \<lparr>player = None, cin = \<lparr>buf = ''3\<newline>'', good = True\<rparr>,
         cout = [], cerr = [], game_state_txt = Some ''Hero abc\<newline>'',
         readable = True, writable = True\<rparr>"
  define ifs1 :: istream where "ifs1 = \<lparr>buf = '' abc\<newline>'', good = True\<rparr>"
  have 1: "open_ifstream g = Some (ifstream_open ''Hero abc\<newline>'')"
    by (simp add: open_ifstream_def g_def)
  have 2: "extract_string (ifstream_open ''Hero abc\<newline>'') [] = (''Hero'', ifs1)"
    by (simp add: ifs1_def stream_defs Let_def)
  have 3: "good ifs1"
    by (simp add: ifs1_def)
  have d: "dropWhile isspace (buf ifs1) = ''abc\<newline>''"
    by (simp add: ifs1_def isspace_def)
  then have 4: "dropWhile isspace (buf ifs1) \<noteq> []"
    by simp
  have 5: "fst (num_get (dropWhile isspace (buf ifs1))) = None"
    unfolding d by (simp add: num_get_def isdigit_def Let_def)
  from load_unparsable_health [OF 1 2 3 4 5, of 57] show ?thesis
    by (simp add: g_def)
qed

end
